theory Spec2Isabelle
  imports Main
begin

section \<open>Polling wait helpers and log streaming of the Nomad client\<close>

text \<open>
  The client turns a stateless REST API into blocking waits and a log tail by polling.
  Everything the loops observe from outside (the clock, the outcome of each awaited
  request, a call of the cancel function while the loop is suspended) is given to the
  model as a script, one entry per loop iteration. A loop that is still polling when the
  script ends is \<open>Pending\<close>, as its promise would be.
\<close>

subsection \<open>Errors thrown by the HTTP client (core/http/HttpClient.ts)\<close>

text \<open>
  A thrown JavaScript value is an instance of \<open>Error\<close> carrying a message, or anything
  else. \<open>handleError\<close> is applied by every request method of \<open>HttpClient\<close> to what
  axios rejects with, and its result is what the request method throws.
\<close>

datatype thrown = Error string | NotAnError

fun instanceof_Error :: "thrown \<Rightarrow> bool" where
  "instanceof_Error (Error m) = True"
| "instanceof_Error NotAnError = False"

text \<open>
  What axios rejects with: an axios error with \<open>error.response?.status\<close>,
  \<open>error.response?.data?.message\<close> and \<open>error.message\<close>, or some other thrown value.
\<close>

datatype axios_rejection =
    AxiosError "nat option" "string option" string
  | OtherRejection thrown

text \<open>Decimal digits of a number, as a template literal prints it.\<close>

fun toString :: "nat \<Rightarrow> string" where
  "toString n =
     (if n < 10 then [char_of (48 + n)]
      else toString (n div 10) @ [char_of (48 + n mod 10)])"

declare toString.simps [simp del]

fun handleError :: "axios_rejection \<Rightarrow> thrown" where
  "handleError (AxiosError status data_message message) =
     Error (''HTTP Error ''
            @ (case status of None \<Rightarrow> ''undefined'' | Some n \<Rightarrow> toString n)
            @ '': ''
            @ (case data_message of
                 None \<Rightarrow> message
               | Some m \<Rightarrow> if m \<noteq> [] then m else message))"
| "handleError (OtherRejection error) =
     (if instanceof_Error error then error else Error ''Unknown HTTP error'')"

text \<open>The rejection of a request whose entity does not exist: HTTP status 404.\<close>

fun not_found :: "axios_rejection \<Rightarrow> bool" where
  "not_found (AxiosError status data_message message) = (status = Some 404)"
| "not_found (OtherRejection error) = False"

subsection \<open>Statuses (types/nomad.ts)\<close>

datatype AllocationStatus =
  alloc_pending | alloc_running | alloc_complete | alloc_failed | alloc_lost

datatype TaskState = task_pending | task_running | task_dead

text \<open>
  \<open>AllocationStatus\<close> and \<open>TaskState\<close> are unions of string literals; the constructors
  carry a prefix because \<open>pending\<close> and \<open>running\<close> belong to both. Of an allocation the
  wait helper reads \<open>ClientStatus\<close> only; of the task status returned by \<open>getStatus\<close> it
  reads \<open>state\<close> only.
\<close>

record IAllocation =
  ID :: string
  ClientStatus :: AllocationStatus

record task_status =
  state :: TaskState
  failed :: bool
  restarts :: nat

subsection \<open>What a wait helper observes and does\<close>

text \<open>
  One entry per evaluation of the loop condition: \<open>now\<close> is what \<open>Date.now()\<close> returns
  there, \<open>probe\<close> is how the awaited status request settles if the loop body runs.
  Times are whole milliseconds; \<open>startTime\<close> is the reading of \<open>Date.now()\<close> taken before
  the loop. The trace lists what the helper does: \<open>Probe\<close> when it issues the status
  request, \<open>Sleep 2000\<close> when it awaits the two-second timer.
\<close>

record 'r cycle =
  now :: int
  probe :: "thrown + 'r"

datatype event =
    Probe
  | Sleep nat
  | LogRead nat
  | OnData string
  | OnError thrown
  | Cancelled

datatype outcome = Resolved bool | Rejected thrown | Pending

fun after :: "event list \<Rightarrow> outcome \<times> event list \<Rightarrow> outcome \<times> event list" where
  "after evs (r, tr) = (r, evs @ tr)"

subsection \<open>NomadAllocationModule.waitForStatus (modules/allocations.ts)\<close>

definition terminalStatuses :: "AllocationStatus list" where
  "terminalStatuses = [alloc_complete, alloc_failed, alloc_lost]"

fun waitForStatus ::
  "AllocationStatus \<Rightarrow> int \<Rightarrow> int \<Rightarrow> IAllocation cycle list \<Rightarrow> outcome \<times> event list"
where
  "waitForStatus desiredStatus timeoutMs startTime [] = (Pending, [])"
| "waitForStatus desiredStatus timeoutMs startTime (c # cs) =
     (if now c - startTime < timeoutMs then
        (case probe c of
           Inr allocation \<Rightarrow>
             if ClientStatus allocation = desiredStatus then (Resolved True, [Probe])
             else if ClientStatus allocation \<in> set terminalStatuses
             then (Resolved (ClientStatus allocation = desiredStatus), [Probe])
             else after [Probe, Sleep 2000]
                    (waitForStatus desiredStatus timeoutMs startTime cs)
         | Inl error \<Rightarrow>
             if desiredStatus = alloc_complete then (Resolved True, [Probe])
             else (Resolved False, [Probe]))
      else (Resolved False, []))"

subsection \<open>NomadTaskModule.waitForState (modules/task.ts)\<close>

fun waitForState ::
  "TaskState \<Rightarrow> int \<Rightarrow> int \<Rightarrow> task_status cycle list \<Rightarrow> outcome \<times> event list"
where
  "waitForState desiredState timeoutMs startTime [] = (Pending, [])"
| "waitForState desiredState timeoutMs startTime (c # cs) =
     (if now c - startTime < timeoutMs then
        (case probe c of
           Inr status \<Rightarrow>
             if state status = desiredState then (Resolved True, [Probe])
             else if state status = task_dead
             then (Resolved (desiredState = task_dead), [Probe])
             else after [Probe, Sleep 2000]
                    (waitForState desiredState timeoutMs startTime cs)
         | Inl error \<Rightarrow> (Resolved False, [Probe]))
      else (Resolved False, []))"

subsection \<open>NomadJobModule.waitForDeployment (modules/job.ts)\<close>

record ITaskGroupSummary =
  Queued :: int
  Complete :: int
  Failed :: int
  Running :: int
  Starting :: int
  Lost :: int

text \<open>
  What \<open>getStatus\<close> of the job module resolves with: the job's status string and the
  \<open>Summary\<close> table of its job summary, task group name to counters, in insertion order.
\<close>

record job_status =
  status :: string
  Summary :: "(string \<times> ITaskGroupSummary) list"

definition Object_values :: "('k \<times> 'v) list \<Rightarrow> 'v list" where
  "Object_values obj = map snd obj"

text \<open>
  The counters are JavaScript numbers holding integers, and \<open>reduce\<close> adds them as
  IEEE 754 doubles: a sum is the double nearest to the exact sum, ties to the even
  significand, and a sum of magnitude \<open>2\<^sup>1\<^sup>0\<^sup>2\<^sup>4\<close> or more is an infinity. Integers of magnitude up
  to \<open>2\<^sup>5\<^sup>3 = 9007199254740992\<close> are doubles; beyond, \<open>significand_shift\<close> is the number
  of low bits a 53-bit significand cannot hold.
\<close>

datatype js_number = Finite int | PlusInfinity | MinusInfinity | NaN

function significand_shift :: "int \<Rightarrow> nat" where
  "significand_shift m =
     (if m < 9007199254740992 then 0 else Suc (significand_shift (m div 2)))"
  by pat_completeness auto
termination
  by (relation "measure nat") auto

declare significand_shift.simps [simp del]

definition round_double :: "int \<Rightarrow> int" where
  "round_double n =
     (if \<bar>n\<bar> \<le> 9007199254740992 then n
      else
        let m = \<bar>n\<bar>;
            e = significand_shift m;
            q = m div 2 ^ e;
            r = m mod 2 ^ e;
            q' = (if 2 * r > 2 ^ e \<or> (2 * r = 2 ^ e \<and> odd q) then q + 1 else q)
        in sgn n * (q' * 2 ^ e))"

definition overflow :: "int \<Rightarrow> js_number" where
  "overflow n =
     (if n \<ge> 2 ^ 1024 then PlusInfinity
      else if n \<le> - (2 ^ 1024) then MinusInfinity
      else Finite n)"

text \<open>The operators \<open>+\<close>, \<open>===\<close> and \<open>>\<close> on such numbers.\<close>

fun js_add :: "js_number \<Rightarrow> js_number \<Rightarrow> js_number" where
  "js_add (Finite a) (Finite b) = overflow (round_double (a + b))"
| "js_add NaN y = NaN"
| "js_add x NaN = NaN"
| "js_add PlusInfinity MinusInfinity = NaN"
| "js_add MinusInfinity PlusInfinity = NaN"
| "js_add PlusInfinity y = PlusInfinity"
| "js_add x PlusInfinity = PlusInfinity"
| "js_add MinusInfinity y = MinusInfinity"
| "js_add x MinusInfinity = MinusInfinity"

fun strict_equals :: "js_number \<Rightarrow> js_number \<Rightarrow> bool" where
  "strict_equals NaN y = False"
| "strict_equals x NaN = False"
| "strict_equals x y = (x = y)"

fun greater_than :: "js_number \<Rightarrow> js_number \<Rightarrow> bool" where
  "greater_than (Finite a) (Finite b) = (a > b)"
| "greater_than PlusInfinity (Finite b) = True"
| "greater_than PlusInfinity MinusInfinity = True"
| "greater_than (Finite a) MinusInfinity = True"
| "greater_than x y = False"

definition running_total :: "job_status \<Rightarrow> js_number" where
  "running_total st =
     foldl (\<lambda>sum tg. js_add sum (Finite (Running tg))) (Finite 0)
       (Object_values (Summary st))"

definition desired_total :: "job_status \<Rightarrow> js_number" where
  "desired_total st =
     foldl (\<lambda>sum tg.
              js_add (js_add (js_add sum (Finite (Running tg))) (Finite (Queued tg)))
                (Finite (Starting tg)))
       (Finite 0) (Object_values (Summary st))"

fun waitForDeployment :: "int \<Rightarrow> int \<Rightarrow> job_status cycle list \<Rightarrow> outcome \<times> event list" where
  "waitForDeployment timeoutMs startTime [] = (Pending, [])"
| "waitForDeployment timeoutMs startTime (c # cs) =
     (if now c - startTime < timeoutMs then
        (case probe c of
           Inr st \<Rightarrow>
             if status st = ''running''
                \<and> strict_equals (running_total st) (desired_total st)
                \<and> greater_than (running_total st) (Finite 0)
             then (Resolved True, [Probe])
             else after [Probe, Sleep 2000] (waitForDeployment timeoutMs startTime cs)
         | Inl error \<Rightarrow> (Rejected error, [Probe]))
      else (Resolved False, []))"

text \<open>
  The totals in the words of the specification: the exact number of running allocations
  over all task groups, and the exact sum of \<open>Running + Queued + Starting\<close>.
\<close>

definition running_count :: "job_status \<Rightarrow> int" where
  "running_count st = sum_list (map Running (Object_values (Summary st)))"

definition desired_count :: "job_status \<Rightarrow> int" where
  "desired_count st =
     sum_list (map (\<lambda>tg. Running tg + Queued tg + Starting tg) (Object_values (Summary st)))"

subsection \<open>Decoding a log chunk\<close>

text \<open>
  \<open>Buffer.from(data, 'base64').toString('utf-8')\<close> is a call into the platform. The
  stream functions take the decoder as a parameter, so what is proved of them holds for
  any decoder. \<open>base64_decode\<close> is the decoder used on concrete inputs. Its base64 part
  reads the digits of the standard and the URL-safe alphabet up to the first padding
  character and skips other characters. Its UTF-8 part represents the text by its UTF-8
  bytes: a well-formed sequence is kept, and each ill-formed one (a byte that cannot start
  a sequence, or the longest prefix of a sequence cut short) becomes U+FFFD, the bytes
  \<open>EF BF BD\<close>.
\<close>

definition sextet :: "char \<Rightarrow> nat option" where
  "sextet c =
     (let n = (of_char c :: nat) in
      if 65 \<le> n \<and> n \<le> 90 then Some (n - 65)
      else if 97 \<le> n \<and> n \<le> 122 then Some (n - 71)
      else if 48 \<le> n \<and> n \<le> 57 then Some (n + 4)
      else if n = 43 \<or> n = 45 then Some 62
      else if n = 47 \<or> n = 95 then Some 63
      else None)"

fun sextets :: "string \<Rightarrow> nat list" where
  "sextets [] = []"
| "sextets (c # cs) =
     (if (of_char c :: nat) = 61 then []
      else case sextet c of Some v \<Rightarrow> v # sextets cs | None \<Rightarrow> sextets cs)"

fun octets :: "nat list \<Rightarrow> nat list" where
  "octets (a # b # c # d # rest) =
     (a * 4 + b div 16) # ((b mod 16) * 16 + c div 4) # ((c mod 4) * 64 + d) # octets rest"
| "octets [a, b, c] = [a * 4 + b div 16, (b mod 16) * 16 + c div 4]"
| "octets [a, b] = [a * 4 + b div 16]"
| "octets [a] = []"
| "octets [] = []"

text \<open>
  For a lead byte: how many continuation bytes follow, and the range of the first of
  them (the later ones range over \<open>80\<close> to \<open>BF\<close>). \<open>continuation\<close> counts the continuation
  bytes that are present and in range.
\<close>

definition sequence_of :: "nat \<Rightarrow> (nat \<times> nat \<times> nat) option" where
  "sequence_of b =
     (if 194 \<le> b \<and> b \<le> 223 then Some (1, 128, 191)
      else if b = 224 then Some (2, 160, 191)
      else if b = 237 then Some (2, 128, 159)
      else if 225 \<le> b \<and> b \<le> 239 then Some (2, 128, 191)
      else if b = 240 then Some (3, 144, 191)
      else if 241 \<le> b \<and> b \<le> 243 then Some (3, 128, 191)
      else if b = 244 then Some (3, 128, 143)
      else None)"

fun continuation :: "nat \<Rightarrow> nat \<Rightarrow> nat \<Rightarrow> nat list \<Rightarrow> nat" where
  "continuation 0 lower upper bs = 0"
| "continuation (Suc n) lower upper [] = 0"
| "continuation (Suc n) lower upper (b # bs) =
     (if lower \<le> b \<and> b \<le> upper then Suc (continuation n 128 191 bs) else 0)"

function utf8_text :: "nat list \<Rightarrow> nat list" where
  "utf8_text [] = []"
| "utf8_text (b # bs) =
     (if b < 128 then b # utf8_text bs
      else case sequence_of b of
        None \<Rightarrow> [239, 191, 189] @ utf8_text bs
      | Some (n, lower, upper) \<Rightarrow>
          (let k = continuation n lower upper bs in
           if k = n then b # take n bs @ utf8_text (drop n bs)
           else [239, 191, 189] @ utf8_text (drop k bs)))"
  by pat_completeness auto
termination
  by (relation "measure length") auto

definition base64_decode :: "string \<Rightarrow> string" where
  "base64_decode s = map char_of (utf8_text (octets (sextets s)))"

subsection \<open>streamLogs (modules/allocations.ts and modules/task.ts)\<close>

record IAllocationLogResponse =
  Data :: string
  Offset :: nat
  File :: string

text \<open>
  One entry per iteration of \<open>streamLoop\<close>: how the awaited log request settles, whether
  the cancel function is called while that request is in flight, and whether it is called
  during the sleep that follows.
\<close>

record 'r stream_cycle =
  read :: "thrown + 'r"
  cancel_in_read :: bool
  cancel_in_sleep :: bool

text \<open>
  The part of the \<open>try\<close> block between the request and the sleep, in the allocation
  module: the callback events and the new value of \<open>offset\<close>.
\<close>

definition alloc_chunk ::
  "(string \<Rightarrow> string) \<Rightarrow> nat \<Rightarrow> IAllocationLogResponse \<Rightarrow> event list \<times> nat"
where
  "alloc_chunk decode offset logResponse =
     (if Data logResponse \<noteq> [] then
        (let logData = decode (Data logResponse) in
         (if logData \<noteq> [] \<and> length logData > 0 then [OnData logData] else [],
          Offset logResponse))
      else ([], offset))"

text \<open>
  The same part in the task module. There \<open>response.data\<close> is untyped and may be absent
  (\<open>None\<close>), and \<open>offset = response.data.Offset || offset\<close> keeps the old offset when
  the reported one is \<open>0\<close> (a missing \<open>Offset\<close> behaves as \<open>0\<close> does).
\<close>

definition task_chunk ::
  "(string \<Rightarrow> string) \<Rightarrow> nat \<Rightarrow> IAllocationLogResponse option \<Rightarrow> event list \<times> nat"
where
  "task_chunk decode offset data =
     (case data of
        None \<Rightarrow> ([], offset)
      | Some d \<Rightarrow>
          if Data d \<noteq> [] then
            (let logData = decode (Data d) in
             (if logData \<noteq> [] \<and> length logData > 0 then [OnData logData] else [],
              if Offset d \<noteq> 0 then Offset d else offset))
          else ([], offset))"

text \<open>
  \<open>streamLoop\<close> is the same loop in both modules around a different chunk handler.
  \<open>hasOnError\<close> says whether the optional \<open>onError\<close> callback was supplied; \<open>running\<close>
  and \<open>offset\<close> are the two variables of the closure. The callbacks are taken not to
  throw. The trace lists \<open>LogRead offset\<close> when the log request is issued at that offset,
  \<open>OnData\<close> and \<open>OnError\<close> when a callback is invoked with that argument, \<open>Sleep 1000\<close>
  when the one-second timer is awaited, and \<open>Cancelled\<close> when the cancel function sets
  \<open>running\<close> to \<open>false\<close>, at the place in the trace where the call happens.
\<close>

fun streamLoop ::
  "(nat \<Rightarrow> 'r \<Rightarrow> event list \<times> nat) \<Rightarrow> bool \<Rightarrow> bool \<Rightarrow> nat \<Rightarrow> 'r stream_cycle list \<Rightarrow> event list"
where
  "streamLoop chunk hasOnError running offset [] = []"
| "streamLoop chunk hasOnError running offset (c # cs) =
     (if running then
        LogRead offset # (if cancel_in_read c then [Cancelled] else []) @
        (case read c of
           Inr response \<Rightarrow>
             fst (chunk offset response) @ [Sleep 1000] @
             (if cancel_in_sleep c then [Cancelled] else []) @
             streamLoop chunk hasOnError (\<not> cancel_in_read c \<and> \<not> cancel_in_sleep c)
               (snd (chunk offset response)) cs
         | Inl error \<Rightarrow>
             if hasOnError \<and> \<not> cancel_in_read c
             then [OnError (if instanceof_Error error then error else Error ''Stream error'')]
             else [])
      else [])"

text \<open>
  \<open>streamLogs\<close> starts the loop with \<open>running = true\<close> and \<open>offset = 0\<close>; the first
  request is issued before the cancel function is returned.
\<close>

definition alloc_streamLogs ::
  "(string \<Rightarrow> string) \<Rightarrow> bool \<Rightarrow> IAllocationLogResponse stream_cycle list \<Rightarrow> event list"
where
  "alloc_streamLogs decode hasOnError cycles =
     streamLoop (alloc_chunk decode) hasOnError True 0 cycles"

definition task_streamLogs ::
  "(string \<Rightarrow> string) \<Rightarrow> bool \<Rightarrow> IAllocationLogResponse option stream_cycle list \<Rightarrow> event list"
where
  "task_streamLogs decode hasOnError cycles =
     streamLoop (task_chunk decode) hasOnError True 0 cycles"

subsection \<open>Reading scripts and traces\<close>

text \<open>An iteration after which the wait helper sleeps and polls again.\<close>

definition alloc_continues :: "AllocationStatus \<Rightarrow> int \<Rightarrow> int \<Rightarrow> IAllocation cycle \<Rightarrow> bool" where
  "alloc_continues desiredStatus timeoutMs startTime c =
     (now c - startTime < timeoutMs \<and>
      (case probe c of
         Inl error \<Rightarrow> False
       | Inr allocation \<Rightarrow>
           ClientStatus allocation \<noteq> desiredStatus
           \<and> ClientStatus allocation \<notin> set terminalStatuses))"

definition task_continues :: "TaskState \<Rightarrow> int \<Rightarrow> int \<Rightarrow> task_status cycle \<Rightarrow> bool" where
  "task_continues desiredState timeoutMs startTime c =
     (now c - startTime < timeoutMs \<and>
      (case probe c of
         Inl error \<Rightarrow> False
       | Inr s \<Rightarrow> state s \<noteq> desiredState \<and> state s \<noteq> task_dead))"

definition deployment_ready :: "job_status \<Rightarrow> bool" where
  "deployment_ready st =
     (status st = ''running'' \<and> strict_equals (running_total st) (desired_total st)
      \<and> greater_than (running_total st) (Finite 0))"

definition job_continues :: "int \<Rightarrow> int \<Rightarrow> job_status cycle \<Rightarrow> bool" where
  "job_continues timeoutMs startTime c =
     (now c - startTime < timeoutMs \<and>
      (case probe c of Inl error \<Rightarrow> False | Inr st \<Rightarrow> \<not> deployment_ready st))"

text \<open>
  A job status whose counters are counts that the doubles add exactly: none is negative
  and their sum is at most \<open>2\<^sup>5\<^sup>3\<close>. A script all of whose job statuses are such.
\<close>

definition counts_exact :: "job_status \<Rightarrow> bool" where
  "counts_exact st =
     (list_all (\<lambda>tg. 0 \<le> Running tg \<and> 0 \<le> Queued tg \<and> 0 \<le> Starting tg)
        (Object_values (Summary st))
      \<and> desired_count st \<le> 9007199254740992)"

definition script_exact :: "job_status cycle list \<Rightarrow> bool" where
  "script_exact cycles =
     list_all (\<lambda>c. case probe c of Inl error \<Rightarrow> True | Inr st \<Rightarrow> counts_exact st) cycles"

text \<open>
  A job status that reports no running allocation in any task group, and an iteration
  that finds the job so and polls again.
\<close>

definition no_running :: "job_status \<Rightarrow> bool" where
  "no_running st = list_all (\<lambda>tg. Running tg = 0) (Object_values (Summary st))"

definition zero_running :: "int \<Rightarrow> int \<Rightarrow> job_status cycle \<Rightarrow> bool" where
  "zero_running timeoutMs startTime c =
     (now c - startTime < timeoutMs \<and>
      (case probe c of Inl error \<Rightarrow> False | Inr st \<Rightarrow> no_running st))"

text \<open>The trace of \<open>n\<close> iterations that each probe and then sleep two seconds.\<close>

definition polls :: "nat \<Rightarrow> event list" where
  "polls n = concat (replicate n [Probe, Sleep 2000])"

fun is_LogRead :: "event \<Rightarrow> bool" where
  "is_LogRead (LogRead off) = True"
| "is_LogRead e = False"

fun is_OnData :: "event \<Rightarrow> bool" where
  "is_OnData (OnData text) = True"
| "is_OnData e = False"


text \<open>The events of a trace that follow its first call of the cancel function.\<close>

definition after_cancel :: "event list \<Rightarrow> event list" where
  "after_cancel tr = dropWhile (\<lambda>e. e \<noteq> Cancelled) tr"



section \<open>Properties of the wait helpers\<close>

subsection \<open>Iterations that poll again\<close>

lemma after_after: "after xs (after ys p) = after (xs @ ys) p"
  by (cases p) simp

lemma after_Nil: "after [] p = p"
  by (cases p) simp

lemma polls_Suc: "polls (Suc n) = Probe # Sleep 2000 # polls n"
  by (simp add: polls_def)

lemma polls_0: "polls 0 = []"
  by (simp add: polls_def)

lemma waitForStatus_prefix:
  "list_all (alloc_continues desiredStatus timeoutMs startTime) pre \<Longrightarrow>
   waitForStatus desiredStatus timeoutMs startTime (pre @ rest) =
     after (polls (length pre)) (waitForStatus desiredStatus timeoutMs startTime rest)"
proof (induction pre)
  case Nil
  show ?case by (simp add: polls_0 after_Nil)
next
  case (Cons c pre)
  from Cons.prems have c: "alloc_continues desiredStatus timeoutMs startTime c"
    and pre: "list_all (alloc_continues desiredStatus timeoutMs startTime) pre"
    by simp_all
  from c obtain a where "now c - startTime < timeoutMs" "probe c = Inr a"
    "ClientStatus a \<noteq> desiredStatus" "ClientStatus a \<notin> set terminalStatuses"
    by (auto simp: alloc_continues_def split: sum.splits)
  then show ?case
    using Cons.IH [OF pre] by (simp add: polls_Suc after_after)
qed

lemma waitForState_prefix:
  "list_all (task_continues desiredState timeoutMs startTime) pre \<Longrightarrow>
   waitForState desiredState timeoutMs startTime (pre @ rest) =
     after (polls (length pre)) (waitForState desiredState timeoutMs startTime rest)"
proof (induction pre)
  case Nil
  show ?case by (simp add: polls_0 after_Nil)
next
  case (Cons c pre)
  from Cons.prems have c: "task_continues desiredState timeoutMs startTime c"
    and pre: "list_all (task_continues desiredState timeoutMs startTime) pre"
    by simp_all
  from c obtain s where "now c - startTime < timeoutMs" "probe c = Inr s"
    "state s \<noteq> desiredState" "state s \<noteq> task_dead"
    by (auto simp: task_continues_def split: sum.splits)
  then show ?case
    using Cons.IH [OF pre] by (simp add: polls_Suc after_after)
qed

lemma waitForDeployment_prefix:
  "list_all (job_continues timeoutMs startTime) pre \<Longrightarrow>
   waitForDeployment timeoutMs startTime (pre @ rest) =
     after (polls (length pre)) (waitForDeployment timeoutMs startTime rest)"
proof (induction pre)
  case Nil
  show ?case by (simp add: polls_0 after_Nil)
next
  case (Cons c pre)
  from Cons.prems have c: "job_continues timeoutMs startTime c"
    and pre: "list_all (job_continues timeoutMs startTime) pre"
    by simp_all
  from c obtain st where "now c - startTime < timeoutMs" "probe c = Inr st"
    "\<not> deployment_ready st"
    by (auto simp: job_continues_def split: sum.splits)
  then show ?case
    using Cons.IH [OF pre] by (auto simp: polls_Suc after_after deployment_ready_def)
qed


text \<open>
  \<open>waitForStatus\<close> and \<open>waitForState\<close> catch whatever the probe throws: their promise
  never rejects.
\<close>

lemma fst_after: "fst (after evs p) = fst p"
  by (cases p) simp

lemma waitForStatus_never_rejects:
  "fst (waitForStatus desiredStatus timeoutMs startTime cycles) \<noteq> Rejected error"
proof (induction cycles)
  case Nil
  show ?case by simp
next
  case (Cons c cycles)
  then show ?case
    by (cases "probe c") (simp_all add: fst_after)
qed

lemma waitForState_never_rejects:
  "fst (waitForState desiredState timeoutMs startTime cycles) \<noteq> Rejected error"
proof (induction cycles)
  case Nil
  show ?case by simp
next
  case (Cons c cycles)
  then show ?case
    by (cases "probe c") (simp_all add: fst_after)
qed

subsection \<open>Success on the desired status\<close>

text \<open>
  Claim C6. In each cycle of \<open>waitForStatus\<close> and of \<open>waitForState\<close> the status is fetched
  and compared with the desired one; when they are equal the helper returns \<open>true\<close> at
  once: the probe that observed the status is the last event, no sleep and no probe
  follows, whatever the script holds afterwards. After \<open>n\<close> cycles that polled again the
  trace is \<open>n\<close> probe-and-sleep pairs and that last probe; when the first probe already
  returns the desired status (\<open>n = 0\<close>) the trace is the single probe, without any sleep.
\<close>

theorem wait_succeeds_on_desired_status:
  "(list_all (alloc_continues desiredStatus timeoutMs startTime) pre
      \<and> now c - startTime < timeoutMs
      \<and> probe c = Inr allocation \<and> ClientStatus allocation = desiredStatus
    \<longrightarrow> waitForStatus desiredStatus timeoutMs startTime (pre @ c # post)
          = (Resolved True, polls (length pre) @ [Probe]))
   \<and> (list_all (task_continues desiredState timeoutMs startTime) tpre
      \<and> now tc - startTime < timeoutMs
      \<and> probe tc = Inr st \<and> state st = desiredState
    \<longrightarrow> waitForState desiredState timeoutMs startTime (tpre @ tc # tpost)
          = (Resolved True, polls (length tpre) @ [Probe]))"
  by (simp add: waitForStatus_prefix waitForState_prefix)

theorem wait_succeeds_on_desired_status_witness:
  "waitForStatus alloc_running 300000 1000
     [\<lparr>now = 1000, probe = Inr \<lparr>ID = ''a1'', ClientStatus = alloc_running\<rparr>\<rparr>]
     = (Resolved True, [Probe])
   \<and> waitForState task_running 300000 1000
     [\<lparr>now = 1000, probe = Inr \<lparr>state = task_pending, failed = False, restarts = 0\<rparr>\<rparr>,
      \<lparr>now = 3002, probe = Inr \<lparr>state = task_running, failed = False, restarts = 0\<rparr>\<rparr>]
     = (Resolved True, [Probe, Sleep 2000, Probe])"
  using wait_succeeds_on_desired_status [of alloc_running 300000 1000 "[]"
      "\<lparr>now = 1000, probe = Inr \<lparr>ID = ''a1'', ClientStatus = alloc_running\<rparr>\<rparr>"
      "\<lparr>ID = ''a1'', ClientStatus = alloc_running\<rparr>" "[]"
      task_running
      "[\<lparr>now = 1000, probe = Inr \<lparr>state = task_pending, failed = False, restarts = 0\<rparr>\<rparr>]"
      "\<lparr>now = 3002, probe = Inr \<lparr>state = task_running, failed = False, restarts = 0\<rparr>\<rparr>"
      "\<lparr>state = task_running, failed = False, restarts = 0\<rparr>" "[]"]
  by (simp add: task_continues_def polls_def)

subsection \<open>A differing terminal status\<close>

text \<open>
  Claim C5. While the timeout has not elapsed, a fetched status that is terminal
  (\<open>complete\<close>, \<open>failed\<close>, \<open>lost\<close> for an allocation, \<open>dead\<close> for a task) and differs from the
  desired one makes the helper return \<open>false\<close> at once: the probe that observed it is the
  last event, with no further probe and no further sleep. For the probe sequence
  \<open>pending\<close>, \<open>failed\<close> and the desired status \<open>running\<close> the helper returns \<open>false\<close> on
  observing \<open>failed\<close>.
\<close>

theorem wait_stops_on_terminal_mismatch:
  "(list_all (alloc_continues desiredStatus timeoutMs startTime) pre
      \<and> now c - startTime < timeoutMs
      \<and> probe c = Inr allocation
      \<and> ClientStatus allocation \<in> set terminalStatuses
      \<and> ClientStatus allocation \<noteq> desiredStatus
    \<longrightarrow> waitForStatus desiredStatus timeoutMs startTime (pre @ c # post)
          = (Resolved False, polls (length pre) @ [Probe]))
   \<and> (list_all (task_continues desiredState timeoutMs startTime) tpre
      \<and> now tc - startTime < timeoutMs
      \<and> probe tc = Inr st \<and> state st = task_dead \<and> state st \<noteq> desiredState
    \<longrightarrow> waitForState desiredState timeoutMs startTime (tpre @ tc # tpost)
          = (Resolved False, polls (length tpre) @ [Probe]))"
  by (auto simp add: waitForStatus_prefix waitForState_prefix)

theorem wait_stops_on_terminal_mismatch_witness:
  "waitForStatus alloc_running 300000 1000
     [\<lparr>now = 1000, probe = Inr \<lparr>ID = ''a1'', ClientStatus = alloc_pending\<rparr>\<rparr>,
      \<lparr>now = 3002, probe = Inr \<lparr>ID = ''a1'', ClientStatus = alloc_failed\<rparr>\<rparr>,
      \<lparr>now = 5004, probe = Inr \<lparr>ID = ''a1'', ClientStatus = alloc_running\<rparr>\<rparr>]
     = (Resolved False, [Probe, Sleep 2000, Probe])
   \<and> waitForState task_running 300000 1000
     [\<lparr>now = 1000, probe = Inr \<lparr>state = task_pending, failed = False, restarts = 0\<rparr>\<rparr>,
      \<lparr>now = 3002, probe = Inr \<lparr>state = task_dead, failed = True, restarts = 0\<rparr>\<rparr>]
     = (Resolved False, [Probe, Sleep 2000, Probe])"
  using wait_stops_on_terminal_mismatch [of alloc_running 300000 1000
      "[\<lparr>now = 1000, probe = Inr \<lparr>ID = ''a1'', ClientStatus = alloc_pending\<rparr>\<rparr>]"
      "\<lparr>now = 3002, probe = Inr \<lparr>ID = ''a1'', ClientStatus = alloc_failed\<rparr>\<rparr>"
      "\<lparr>ID = ''a1'', ClientStatus = alloc_failed\<rparr>"
      "[\<lparr>now = 5004, probe = Inr \<lparr>ID = ''a1'', ClientStatus = alloc_running\<rparr>\<rparr>]"
      task_running
      "[\<lparr>now = 1000, probe = Inr \<lparr>state = task_pending, failed = False, restarts = 0\<rparr>\<rparr>]"
      "\<lparr>now = 3002, probe = Inr \<lparr>state = task_dead, failed = True, restarts = 0\<rparr>\<rparr>"
      "\<lparr>state = task_dead, failed = True, restarts = 0\<rparr>" "[]"]
  by (simp add: alloc_continues_def task_continues_def terminalStatuses_def polls_def)

subsection \<open>Timeout\<close>

text \<open>
  Claim C7. When the probes produce neither the desired status nor a differing terminal
  status nor a failure, and the loop condition then finds the timeout elapsed, the helper
  returns \<open>false\<close> as an ordinary value: the promise resolves, it does not reject. No
  script at all makes either helper reject.
\<close>

theorem wait_timeout_returns_false:
  "(list_all (alloc_continues desiredStatus timeoutMs startTime) pre
      \<and> \<not> now c - startTime < timeoutMs
    \<longrightarrow> waitForStatus desiredStatus timeoutMs startTime (pre @ c # post)
          = (Resolved False, polls (length pre)))
   \<and> (list_all (task_continues desiredState timeoutMs startTime) tpre
      \<and> \<not> now tc - startTime < timeoutMs
    \<longrightarrow> waitForState desiredState timeoutMs startTime (tpre @ tc # tpost)
          = (Resolved False, polls (length tpre)))
   \<and> fst (waitForStatus desiredStatus timeoutMs startTime cycles) \<noteq> Rejected error
   \<and> fst (waitForState desiredState timeoutMs startTime tcycles) \<noteq> Rejected error"
  by (simp add: waitForStatus_prefix waitForState_prefix
        waitForStatus_never_rejects waitForState_never_rejects)

theorem wait_timeout_returns_false_witness:
  "waitForStatus alloc_running 4000 1000
     [\<lparr>now = 1000, probe = Inr \<lparr>ID = ''a1'', ClientStatus = alloc_pending\<rparr>\<rparr>,
      \<lparr>now = 3002, probe = Inr \<lparr>ID = ''a1'', ClientStatus = alloc_pending\<rparr>\<rparr>,
      \<lparr>now = 5004, probe = Inr \<lparr>ID = ''a1'', ClientStatus = alloc_running\<rparr>\<rparr>]
     = (Resolved False, [Probe, Sleep 2000, Probe, Sleep 2000])
   \<and> waitForState task_running 4000 1000
     [\<lparr>now = 1000, probe = Inr \<lparr>state = task_pending, failed = False, restarts = 0\<rparr>\<rparr>,
      \<lparr>now = 5000, probe = Inr \<lparr>state = task_running, failed = False, restarts = 0\<rparr>\<rparr>]
     = (Resolved False, [Probe, Sleep 2000])"
  using wait_timeout_returns_false [where desiredStatus = alloc_running and timeoutMs = 4000 and startTime = 1000
      and pre = "[\<lparr>now = 1000, probe = Inr \<lparr>ID = ''a1'', ClientStatus = alloc_pending\<rparr>\<rparr>,
                  \<lparr>now = 3002, probe = Inr \<lparr>ID = ''a1'', ClientStatus = alloc_pending\<rparr>\<rparr>]"
      and c = "\<lparr>now = 5004, probe = Inr \<lparr>ID = ''a1'', ClientStatus = alloc_running\<rparr>\<rparr>"
      and post = "[]"
      and desiredState = task_running
      and tpre = "[\<lparr>now = 1000, probe = Inr \<lparr>state = task_pending, failed = False, restarts = 0\<rparr>\<rparr>]"
      and tc = "\<lparr>now = 5000, probe = Inr \<lparr>state = task_running, failed = False, restarts = 0\<rparr>\<rparr>"
      and tpost = "[]"]
  by (simp add: alloc_continues_def task_continues_def terminalStatuses_def polls_def)

subsection \<open>A timeout that is not positive\<close>

text \<open>
  Claim C9, as stated, fails when the clock steps back: \<open>startTime\<close> and the first loop
  condition are two separate readings of \<open>Date.now()\<close>. With \<open>timeoutMs = 0\<close>, a start
  reading of \<open>1000\<close> and a reading of \<open>999\<close> at the loop condition, the difference \<open>-1\<close> is
  below the timeout: the helper probes, finds the desired status and returns \<open>true\<close>.
\<close>

theorem nonpositive_timeout_probes_when_clock_steps_back:
  "waitForStatus alloc_running 0 1000
     [\<lparr>now = 999, probe = Inr \<lparr>ID = ''a1'', ClientStatus = alloc_running\<rparr>\<rparr>]
     = (Resolved True, [Probe])
   \<and> waitForState task_running 0 1000
     [\<lparr>now = 999, probe = Inr \<lparr>state = task_running, failed = False, restarts = 0\<rparr>\<rparr>]
     = (Resolved True, [Probe])"
  by simp

text \<open>
  Claim C9, amended. With \<open>timeoutMs \<le> 0\<close>, and the clock reading at the first loop
  condition not earlier than the reading that set \<open>startTime\<close>, the helper returns \<open>false\<close>
  without a single probe, also when the entity is already at the desired status: the
  loop condition is evaluated before the first probe.
\<close>

theorem wait_nonpositive_timeout_no_probe:
  "(timeoutMs \<le> 0 \<and> startTime \<le> now c
    \<longrightarrow> waitForStatus desiredStatus timeoutMs startTime (c # cs) = (Resolved False, []))
   \<and> (timeoutMs \<le> 0 \<and> startTime \<le> now tc
    \<longrightarrow> waitForState desiredState timeoutMs startTime (tc # tcs) = (Resolved False, []))"
  by simp

theorem wait_nonpositive_timeout_no_probe_witness:
  "waitForStatus alloc_running 0 1000
     [\<lparr>now = 1000, probe = Inr \<lparr>ID = ''a1'', ClientStatus = alloc_running\<rparr>\<rparr>]
     = (Resolved False, [])
   \<and> waitForState task_running 0 1000
     [\<lparr>now = 1001, probe = Inr \<lparr>state = task_running, failed = False, restarts = 0\<rparr>\<rparr>]
     = (Resolved False, [])"
  using wait_nonpositive_timeout_no_probe [where timeoutMs = 0 and startTime = 1000
      and c = "\<lparr>now = 1000, probe = Inr \<lparr>ID = ''a1'', ClientStatus = alloc_running\<rparr>\<rparr>"
      and desiredStatus = alloc_running and cs = "[]"
      and tc = "\<lparr>now = 1001, probe = Inr \<lparr>state = task_running, failed = False, restarts = 0\<rparr>\<rparr>"
      and desiredState = task_running and tcs = "[]"]
  by simp

subsection \<open>Deployment readiness\<close>

text \<open>
  Where the counters are counts that the doubles add exactly, the totals the code
  computes are the exact ones.
\<close>

lemma round_double_exact: "\<bar>n\<bar> \<le> 9007199254740992 \<Longrightarrow> round_double n = n"
  by (simp add: round_double_def)

lemma js_add_exact:
  "\<bar>a + b\<bar> \<le> 9007199254740992 \<Longrightarrow> js_add (Finite a) (Finite b) = Finite (a + b)"
  by (simp add: round_double_exact overflow_def) linarith

lemma sum_list_map_nonneg:
  "list_all (\<lambda>x. (0::int) \<le> f x) xs \<Longrightarrow> 0 \<le> sum_list (map f xs)"
  by (induction xs) auto

lemma foldl_running_exact:
  "list_all (\<lambda>tg. 0 \<le> Running tg) tgs \<Longrightarrow> 0 \<le> a \<Longrightarrow>
   a + sum_list (map Running tgs) \<le> 9007199254740992 \<Longrightarrow>
   foldl (\<lambda>sum tg. js_add sum (Finite (Running tg))) (Finite a) tgs
     = Finite (a + sum_list (map Running tgs))"
proof (induction tgs arbitrary: a)
  case Nil
  show ?case by simp
next
  case (Cons tg tgs)
  from Cons.prems have r: "0 \<le> Running tg" and rest: "list_all (\<lambda>tg. 0 \<le> Running tg) tgs"
    by simp_all
  have "0 \<le> sum_list (map Running tgs)"
    using rest by (rule sum_list_map_nonneg)
  with Cons.prems(2,3) r have "\<bar>a + Running tg\<bar> \<le> 9007199254740992" by simp
  then have step: "js_add (Finite a) (Finite (Running tg)) = Finite (a + Running tg)"
    by (rule js_add_exact)
  show ?case
    using Cons.IH [OF rest, of "a + Running tg"] Cons.prems(2,3) r
    by (simp add: step add.assoc del: js_add.simps)
qed

lemma foldl_desired_exact:
  "list_all (\<lambda>tg. 0 \<le> Running tg \<and> 0 \<le> Queued tg \<and> 0 \<le> Starting tg) tgs \<Longrightarrow> 0 \<le> a \<Longrightarrow>
   a + sum_list (map (\<lambda>tg. Running tg + Queued tg + Starting tg) tgs) \<le> 9007199254740992 \<Longrightarrow>
   foldl (\<lambda>sum tg.
            js_add (js_add (js_add sum (Finite (Running tg))) (Finite (Queued tg)))
              (Finite (Starting tg)))
     (Finite a) tgs
     = Finite (a + sum_list (map (\<lambda>tg. Running tg + Queued tg + Starting tg) tgs))"
proof (induction tgs arbitrary: a)
  case Nil
  show ?case by simp
next
  case (Cons tg tgs)
  from Cons.prems have r: "0 \<le> Running tg" "0 \<le> Queued tg" "0 \<le> Starting tg"
    and rest: "list_all (\<lambda>tg. 0 \<le> Running tg \<and> 0 \<le> Queued tg \<and> 0 \<le> Starting tg) tgs"
    by simp_all
  have nn: "0 \<le> sum_list (map (\<lambda>tg. Running tg + Queued tg + Starting tg) tgs)"
    by (rule sum_list_map_nonneg) (use rest in \<open>auto simp: list_all_iff\<close>)
  from Cons.prems(2,3) r nn have b1: "\<bar>a + Running tg\<bar> \<le> 9007199254740992"
    and b2: "\<bar>a + Running tg + Queued tg\<bar> \<le> 9007199254740992"
    and b3: "\<bar>a + Running tg + Queued tg + Starting tg\<bar> \<le> 9007199254740992"
    by simp_all
  have step: "js_add (js_add (js_add (Finite a) (Finite (Running tg))) (Finite (Queued tg)))
                (Finite (Starting tg)) = Finite (a + Running tg + Queued tg + Starting tg)"
    by (simp add: js_add_exact b1 b2 b3 del: js_add.simps)
  show ?case
    using Cons.IH [OF rest, of "a + Running tg + Queued tg + Starting tg"] Cons.prems(2,3) r
    by (simp add: step add.assoc del: js_add.simps)
qed

lemma running_le_desired:
  "list_all (\<lambda>tg. 0 \<le> Running tg \<and> 0 \<le> Queued tg \<and> 0 \<le> Starting tg) tgs \<Longrightarrow>
   sum_list (map Running tgs) \<le> sum_list (map (\<lambda>tg. Running tg + Queued tg + Starting tg) tgs)"
  by (induction tgs) auto

lemma totals_exact:
  assumes "counts_exact st"
  shows "running_total st = Finite (running_count st)"
    and "desired_total st = Finite (desired_count st)"
proof -
  let ?tgs = "Object_values (Summary st)"
  from assms have nn: "list_all (\<lambda>tg. 0 \<le> Running tg \<and> 0 \<le> Queued tg \<and> 0 \<le> Starting tg) ?tgs"
    and bound: "sum_list (map (\<lambda>tg. Running tg + Queued tg + Starting tg) ?tgs) \<le> 9007199254740992"
    by (simp_all add: counts_exact_def desired_count_def)
  from nn have nr: "list_all (\<lambda>tg. 0 \<le> Running tg) ?tgs"
    by (auto simp: list_all_iff)
  from running_le_desired [OF nn] bound
  have rb: "0 + sum_list (map Running ?tgs) \<le> 9007199254740992" by simp
  show "running_total st = Finite (running_count st)"
    using foldl_running_exact [OF nr _ rb] by (simp add: running_total_def running_count_def)
  show "desired_total st = Finite (desired_count st)"
    using foldl_desired_exact [OF nn, of 0] bound
    by (simp add: desired_total_def desired_count_def)
qed

lemma no_running_total: "no_running st \<Longrightarrow> running_total st = Finite 0"
proof -
  have "list_all (\<lambda>tg. Running tg = 0) tgs \<Longrightarrow>
        foldl (\<lambda>sum tg. js_add sum (Finite (Running tg))) (Finite 0) tgs = Finite 0"
    for tgs :: "ITaskGroupSummary list"
    by (induction tgs) (simp_all add: round_double_exact overflow_def)
  then show "no_running st \<Longrightarrow> running_total st = Finite 0"
    by (simp add: no_running_def running_total_def)
qed

lemma zero_running_continues:
  "zero_running timeoutMs startTime c \<Longrightarrow> job_continues timeoutMs startTime c"
  by (auto simp: zero_running_def job_continues_def deployment_ready_def no_running_total
           split: sum.splits)

lemma waitForDeployment_true_observed:
  "fst (waitForDeployment timeoutMs startTime cycles) = Resolved True \<Longrightarrow>
   \<exists>c \<in> set cycles. now c - startTime < timeoutMs \<and>
     (\<exists>st. probe c = Inr st \<and> deployment_ready st)"
proof (induction cycles)
  case Nil
  then show ?case by simp
next
  case (Cons c cycles)
  show ?case
  proof (cases "fst (waitForDeployment timeoutMs startTime cycles) = Resolved True")
    case True
    with Cons.IH show ?thesis by auto
  next
    case False
    obtain r tr where rest: "waitForDeployment timeoutMs startTime cycles = (r, tr)"
      by (cases "waitForDeployment timeoutMs startTime cycles")
    with False have "r \<noteq> Resolved True" by simp
    with Cons.prems rest show ?thesis
      by (auto simp: deployment_ready_def split: if_splits sum.splits)
  qed
qed

text \<open>
  Claim C10, as stated, fails where the doubles round: with \<open>Running = 2\<^sup>5\<^sup>3\<close> and
  \<open>Queued = 1\<close> in one task group of a running job the code computes the total
  \<open>2\<^sup>5\<^sup>3\<close> on both sides (the exact sum \<open>2\<^sup>5\<^sup>3 + 1\<close> is not a double and rounds to \<open>2\<^sup>5\<^sup>3\<close>),
  finds them equal and returns \<open>true\<close>, although the total of \<open>Running\<close> differs from the
  sum of \<open>Running + Queued + Starting\<close>.
\<close>

theorem waitForDeployment_true_on_rounded_totals:
  "fst (waitForDeployment 300000 1000
      [\<lparr>now = 1000, probe = Inr \<lparr>status = ''running'', Summary =
         [(''web'', \<lparr>Queued = 1, Complete = 0, Failed = 0, Running = 9007199254740992,
                     Starting = 0, Lost = 0\<rparr>)]\<rparr>\<rparr>])
     = Resolved True
   \<and> running_count \<lparr>status = ''running'', Summary =
         [(''web'', \<lparr>Queued = 1, Complete = 0, Failed = 0, Running = 9007199254740992,
                     Starting = 0, Lost = 0\<rparr>)]\<rparr>
     \<noteq> desired_count \<lparr>status = ''running'', Summary =
         [(''web'', \<lparr>Queued = 1, Complete = 0, Failed = 0, Running = 9007199254740992,
                     Starting = 0, Lost = 0\<rparr>)]\<rparr>"
  by code_simp

text \<open>
  Claim C10, amended. Where the counters are non-negative and their sum is at most
  \<open>2\<^sup>5\<^sup>3\<close>, \<open>waitForDeployment\<close> returns \<open>true\<close> only if some poll cycle inside the timeout
  observes the job status \<open>running\<close> together with a strictly positive total of \<open>Running\<close>
  over all task groups that equals the total of \<open>Running + Queued + Starting\<close>. For a job
  whose summaries always report zero running allocations in every task group it never
  returns \<open>true\<close>, and when the loop condition finds the timeout elapsed it returns
  \<open>false\<close>.
\<close>

theorem waitForDeployment_true_only_when_ready:
  "(script_exact cycles \<and> fst (waitForDeployment timeoutMs startTime cycles) = Resolved True
    \<longrightarrow> (\<exists>c \<in> set cycles. now c - startTime < timeoutMs \<and>
          (\<exists>st. probe c = Inr st \<and> status st = ''running''
                \<and> 0 < running_count st \<and> running_count st = desired_count st)))
   \<and> (list_all (zero_running timeoutMs startTime) pre \<and> \<not> now c - startTime < timeoutMs
    \<longrightarrow> waitForDeployment timeoutMs startTime (pre @ c # post)
          = (Resolved False, polls (length pre)))
   \<and> ((\<forall>c \<in> set script. \<forall>st. probe c = Inr st \<longrightarrow> no_running st)
    \<longrightarrow> fst (waitForDeployment timeoutMs startTime script) \<noteq> Resolved True)"
proof (intro conjI impI)
  assume a: "script_exact cycles \<and> fst (waitForDeployment timeoutMs startTime cycles) = Resolved True"
  then obtain c st where c: "c \<in> set cycles" "now c - startTime < timeoutMs"
    "probe c = Inr st" "deployment_ready st"
    using waitForDeployment_true_observed by blast
  from a c(1,3) have "counts_exact st"
    by (auto simp: script_exact_def list_all_iff split: sum.splits)
  then have "running_total st = Finite (running_count st)"
    "desired_total st = Finite (desired_count st)"
    by (rule totals_exact)+
  with c(4) have "status st = ''running'' \<and> 0 < running_count st
      \<and> running_count st = desired_count st"
    by (simp add: deployment_ready_def)
  with c(1,2,3) show "\<exists>c \<in> set cycles. now c - startTime < timeoutMs \<and>
          (\<exists>st. probe c = Inr st \<and> status st = ''running''
                \<and> 0 < running_count st \<and> running_count st = desired_count st)"
    by blast
next
  assume a: "list_all (zero_running timeoutMs startTime) pre \<and> \<not> now c - startTime < timeoutMs"
  then have "list_all (job_continues timeoutMs startTime) pre"
    by (auto simp: list_all_iff intro: zero_running_continues)
  with a show "waitForDeployment timeoutMs startTime (pre @ c # post)
          = (Resolved False, polls (length pre))"
    by (simp add: waitForDeployment_prefix)
next
  assume z: "\<forall>c \<in> set script. \<forall>st. probe c = Inr st \<longrightarrow> no_running st"
  show "fst (waitForDeployment timeoutMs startTime script) \<noteq> Resolved True"
  proof
    assume "fst (waitForDeployment timeoutMs startTime script) = Resolved True"
    then obtain c st where "c \<in> set script" "probe c = Inr st" "deployment_ready st"
      using waitForDeployment_true_observed by blast
    with z have "no_running st" "deployment_ready st" by auto
    then show False
      by (simp add: deployment_ready_def no_running_total)
  qed
qed


theorem waitForDeployment_true_only_when_ready_witness:
  "fst (waitForDeployment 4000 1000
      [\<lparr>now = 1000, probe = Inr \<lparr>status = ''running'', Summary =
         [(''web'', \<lparr>Queued = 0, Complete = 1, Failed = 0, Running = 2, Starting = 0, Lost = 0\<rparr>),
          (''db'', \<lparr>Queued = 0, Complete = 0, Failed = 0, Running = 1, Starting = 0, Lost = 0\<rparr>)]\<rparr>\<rparr>])
     = Resolved True
   \<and> waitForDeployment 4000 1000
      [\<lparr>now = 1000, probe = Inr \<lparr>status = ''running'', Summary =
         [(''web'', \<lparr>Queued = 2, Complete = 0, Failed = 0, Running = 0, Starting = 0, Lost = 0\<rparr>)]\<rparr>\<rparr>,
       \<lparr>now = 3001, probe = Inr \<lparr>status = ''running'', Summary =
         [(''web'', \<lparr>Queued = 0, Complete = 0, Failed = 2, Running = 0, Starting = 0, Lost = 0\<rparr>)]\<rparr>\<rparr>,
       \<lparr>now = 5002, probe = Inr \<lparr>status = ''running'', Summary = []\<rparr>\<rparr>]
     = (Resolved False, [Probe, Sleep 2000, Probe, Sleep 2000])
   \<and> fst (waitForDeployment 4000 1000
      [\<lparr>now = 1000, probe = Inr \<lparr>status = ''running'', Summary =
         [(''web'', \<lparr>Queued = 0, Complete = 2, Failed = 0, Running = 0, Starting = 0, Lost = 0\<rparr>)]\<rparr>\<rparr>])
     \<noteq> Resolved True"
  using waitForDeployment_true_only_when_ready [where timeoutMs = 4000 and startTime = 1000
      and cycles = "[\<lparr>now = 1000, probe = Inr \<lparr>status = ''running'', Summary =
         [(''web'', \<lparr>Queued = 0, Complete = 1, Failed = 0, Running = 2, Starting = 0, Lost = 0\<rparr>),
          (''db'', \<lparr>Queued = 0, Complete = 0, Failed = 0, Running = 1, Starting = 0, Lost = 0\<rparr>)]\<rparr>\<rparr>]"
      and pre = "[\<lparr>now = 1000, probe = Inr \<lparr>status = ''running'', Summary =
         [(''web'', \<lparr>Queued = 2, Complete = 0, Failed = 0, Running = 0, Starting = 0, Lost = 0\<rparr>)]\<rparr>\<rparr>,
       \<lparr>now = 3001, probe = Inr \<lparr>status = ''running'', Summary =
         [(''web'', \<lparr>Queued = 0, Complete = 0, Failed = 2, Running = 0, Starting = 0, Lost = 0\<rparr>)]\<rparr>\<rparr>]"
      and c = "\<lparr>now = 5002, probe = Inr \<lparr>status = ''running'', Summary = []\<rparr>\<rparr>"
      and post = "[]"
      and script = "[\<lparr>now = 1000, probe = Inr \<lparr>status = ''running'', Summary =
         [(''web'', \<lparr>Queued = 0, Complete = 2, Failed = 0, Running = 0, Starting = 0, Lost = 0\<rparr>)]\<rparr>\<rparr>]"]
  by (simp add: script_exact_def counts_exact_def desired_count_def zero_running_def
        no_running_def running_total_def desired_total_def Object_values_def polls_def
        round_double_def overflow_def)

subsection \<open>Probe failures\<close>

text \<open>
  Inside the timeout a failed probe settles \<open>waitForStatus\<close> at once, whatever the error is:
  the catch clause does not look at it.
\<close>

lemma waitForStatus_failure:
  "now c - startTime < timeoutMs \<Longrightarrow> probe c = Inl error \<Longrightarrow>
   waitForStatus desiredStatus timeoutMs startTime (c # cs)
     = (Resolved (desiredStatus = alloc_complete), [Probe])"
  by simp

text \<open>
  Claim C3, as stated, fails for \<open>waitForDeployment\<close>: its loop has no error handler, so a
  failed probe rejects the promise with the probe's error instead of resolving it with
  \<open>false\<close>.
\<close>

theorem waitForDeployment_rethrows_probe_failure:
  "waitForDeployment 300000 1000
     [\<lparr>now = 1000,
       probe = Inl (handleError (AxiosError (Some 500) None ''Request failed with status code 500''))\<rparr>]
   = (Rejected (Error ''HTTP Error 500: Request failed with status code 500''), [Probe])"
  by code_simp

text \<open>
  Claim C3, amended. In \<open>waitForStatus\<close> with a desired status other than \<open>complete\<close> and in
  \<open>waitForState\<close>, a probe failure stops the loop and yields \<open>false\<close>: the helper does not
  throw, and the failed probe is the last event, so it is not retried. In
  \<open>waitForDeployment\<close> a probe failure stops the loop too, without retry, and is thrown to
  the caller.
\<close>

theorem probe_failure_stops_wait:
  "(list_all (alloc_continues desiredStatus timeoutMs startTime) pre
      \<and> now c - startTime < timeoutMs \<and> probe c = Inl error
      \<and> desiredStatus \<noteq> alloc_complete
    \<longrightarrow> waitForStatus desiredStatus timeoutMs startTime (pre @ c # post)
          = (Resolved False, polls (length pre) @ [Probe]))
   \<and> (list_all (task_continues desiredState timeoutMs startTime) tpre
      \<and> now tc - startTime < timeoutMs \<and> probe tc = Inl error
    \<longrightarrow> waitForState desiredState timeoutMs startTime (tpre @ tc # tpost)
          = (Resolved False, polls (length tpre) @ [Probe]))
   \<and> (list_all (job_continues timeoutMs startTime) jpre
      \<and> now jc - startTime < timeoutMs \<and> probe jc = Inl error
    \<longrightarrow> waitForDeployment timeoutMs startTime (jpre @ jc # jpost)
          = (Rejected error, polls (length jpre) @ [Probe]))"
  by (simp add: waitForStatus_prefix waitForState_prefix waitForDeployment_prefix)

theorem probe_failure_stops_wait_witness:
  "waitForStatus alloc_running 300000 1000
     [\<lparr>now = 1000, probe = Inr \<lparr>ID = ''a1'', ClientStatus = alloc_pending\<rparr>\<rparr>,
      \<lparr>now = 3002, probe = Inl (Error ''HTTP Error 500: boom'')\<rparr>,
      \<lparr>now = 5004, probe = Inr \<lparr>ID = ''a1'', ClientStatus = alloc_running\<rparr>\<rparr>]
     = (Resolved False, [Probe, Sleep 2000, Probe])
   \<and> waitForState task_running 300000 1000
     [\<lparr>now = 1000, probe = Inl (Error ''HTTP Error 500: boom'')\<rparr>,
      \<lparr>now = 3002, probe = Inr \<lparr>state = task_running, failed = False, restarts = 0\<rparr>\<rparr>]
     = (Resolved False, [Probe])
   \<and> waitForDeployment 300000 1000
     [\<lparr>now = 1000, probe = Inr \<lparr>status = ''pending'', Summary = []\<rparr>\<rparr>,
      \<lparr>now = 3002, probe = Inl (Error ''HTTP Error 500: boom'')\<rparr>]
     = (Rejected (Error ''HTTP Error 500: boom''), [Probe, Sleep 2000, Probe])"
  using probe_failure_stops_wait [where desiredStatus = alloc_running and timeoutMs = 300000 and startTime = 1000
      and error = "Error ''HTTP Error 500: boom''"
      and pre = "[\<lparr>now = 1000, probe = Inr \<lparr>ID = ''a1'', ClientStatus = alloc_pending\<rparr>\<rparr>]"
      and c = "\<lparr>now = 3002, probe = Inl (Error ''HTTP Error 500: boom'')\<rparr>"
      and post = "[\<lparr>now = 5004, probe = Inr \<lparr>ID = ''a1'', ClientStatus = alloc_running\<rparr>\<rparr>]"
      and desiredState = task_running
      and tpre = "[]"
      and tc = "\<lparr>now = 1000, probe = Inl (Error ''HTTP Error 500: boom'')\<rparr>"
      and tpost = "[\<lparr>now = 3002, probe = Inr \<lparr>state = task_running, failed = False, restarts = 0\<rparr>\<rparr>]"
      and jpre = "[\<lparr>now = 1000, probe = Inr \<lparr>status = ''pending'', Summary = []\<rparr>\<rparr>]"
      and jc = "\<lparr>now = 3002, probe = Inl (Error ''HTTP Error 500: boom'')\<rparr>"
      and jpost = "[]"]
  by (simp add: alloc_continues_def job_continues_def deployment_ready_def
        terminalStatuses_def polls_def)

text \<open>
  Claim C1 asks that a probe failure other than not-found never makes the helper return
  \<open>true\<close>. The catch clause of \<open>waitForStatus\<close> is commented as the case of an allocation
  that no longer exists but does not inspect the error: with the desired status
  \<open>complete\<close>, a server error (HTTP 500, not a not-found rejection) on the first probe makes
  it return \<open>true\<close>.
\<close>

theorem waitForStatus_complete_succeeds_on_any_failure:
  "\<not> not_found (AxiosError (Some 500) None ''Request failed with status code 500'')
   \<and> waitForStatus alloc_complete 300000 1000
     [\<lparr>now = 1000,
       probe = Inl (handleError (AxiosError (Some 500) None ''Request failed with status code 500''))\<rparr>]
   = (Resolved True, [Probe])"
  by simp

section \<open>Properties of the log stream\<close>

subsection \<open>Iterations that read again\<close>

lemma streamLoop_stopped: "streamLoop chunk hasOnError False offset cycles = []"
  by (cases cycles) simp_all






subsection \<open>Concrete chunks and errors\<close>

lemma base64_decode_hello: "base64_decode ''aGVsbG8='' = ''hello''"
  by code_simp

lemma base64_decode_padding_only: "base64_decode ''='' = []"
  by code_simp


subsection \<open>Chunk handling\<close>

text \<open>
  Claim C2, as stated, fails on a chunk whose \<open>Data\<close> is the empty string: the assignment
  to \<open>offset\<close> is inside the \<open>if (logResponse.Data)\<close> guard, so the stored offset is not
  advanced to the reported one. With the stored offset \<open>0\<close> and the chunk
  \<open>{Data: "", Offset: 7}\<close> the offset stays \<open>0\<close>, and the next read is issued at \<open>0\<close>.
\<close>

theorem empty_data_keeps_offset:
  "alloc_chunk base64_decode 0 \<lparr>Data = [], Offset = 7, File = ''web.stdout.0''\<rparr> = ([], 0)
   \<and> alloc_streamLogs base64_decode True
     [\<lparr>read = Inr \<lparr>Data = [], Offset = 7, File = ''web.stdout.0''\<rparr>,
       cancel_in_read = False, cancel_in_sleep = False\<rparr>,
      \<lparr>read = Inr \<lparr>Data = ''aGVsbG8='', Offset = 12, File = ''web.stdout.0''\<rparr>,
       cancel_in_read = False, cancel_in_sleep = False\<rparr>]
   = [LogRead 0, Sleep 1000, LogRead 0, OnData ''hello'', Sleep 1000]"
  by (simp add: base64_decode_hello alloc_streamLogs_def alloc_chunk_def)

text \<open>
  Claim C2, amended. In a poll cycle of \<open>streamLogs\<close> whose read succeeds: when \<open>Data\<close> is
  empty (or, in the task module, the response has no body) \<open>onData\<close> is not invoked and
  the stored offset is left as it is; when \<open>Data\<close> is not empty but decodes to the empty
  text, \<open>onData\<close> is not invoked and the offset is advanced to the reported \<open>Offset\<close>; when
  the decoded text is not empty, \<open>onData\<close> is invoked exactly once, with the decoded text,
  and the offset is advanced. In the task module the offset is advanced only to an
  \<open>Offset\<close> other than \<open>0\<close>. For the probe sequence \<open>{Data: "", Offset: N}\<close> then
  \<open>{Data: base64("hello"), Offset: N+5}\<close>, nobody cancelling during the first cycle,
  \<open>onData\<close> is invoked exactly once, with \<open>hello\<close>.
\<close>

theorem stream_chunk_handling:
  "(Data r0 = [] \<longrightarrow> alloc_chunk decode offset r0 = ([], offset))
   \<and> (Data r1 \<noteq> [] \<and> decode (Data r1) = []
      \<longrightarrow> alloc_chunk decode offset r1 = ([], Offset r1))
   \<and> (Data r2 \<noteq> [] \<and> decode (Data r2) \<noteq> []
      \<longrightarrow> alloc_chunk decode offset r2 = ([OnData (decode (Data r2))], Offset r2))
   \<and> task_chunk decode offset None = ([], offset)
   \<and> (Data r0 = [] \<longrightarrow> task_chunk decode offset (Some r0) = ([], offset))
   \<and> (Data r1 \<noteq> [] \<and> decode (Data r1) = []
      \<longrightarrow> task_chunk decode offset (Some r1)
          = ([], if Offset r1 \<noteq> 0 then Offset r1 else offset))
   \<and> (Data r2 \<noteq> [] \<and> decode (Data r2) \<noteq> []
      \<longrightarrow> task_chunk decode offset (Some r2)
          = ([OnData (decode (Data r2))], if Offset r2 \<noteq> 0 then Offset r2 else offset))
   \<and> (read c1 = Inr \<lparr>Data = [], Offset = N, File = f1\<rparr>
      \<and> \<not> cancel_in_read c1 \<and> \<not> cancel_in_sleep c1
      \<and> read c2 = Inr \<lparr>Data = ''aGVsbG8='', Offset = N + 5, File = f2\<rparr>
      \<longrightarrow> filter is_OnData (alloc_streamLogs base64_decode hasOnError [c1, c2])
          = [OnData ''hello''])
   \<and> (read t1 = Inr (Some \<lparr>Data = [], Offset = N, File = f1\<rparr>)
      \<and> \<not> cancel_in_read t1 \<and> \<not> cancel_in_sleep t1
      \<and> read t2 = Inr (Some \<lparr>Data = ''aGVsbG8='', Offset = N + 5, File = f2\<rparr>)
      \<longrightarrow> filter is_OnData (task_streamLogs base64_decode hasOnError [t1, t2])
          = [OnData ''hello''])"
proof (intro conjI impI)
  show "task_chunk decode offset None = ([], offset)"
    by (simp add: task_chunk_def)
qed (simp_all add: alloc_chunk_def task_chunk_def alloc_streamLogs_def task_streamLogs_def
       base64_decode_hello)

theorem stream_chunk_handling_witness:
  "alloc_chunk base64_decode 3 \<lparr>Data = [], Offset = 7, File = []\<rparr> = ([], 3)
   \<and> alloc_chunk base64_decode 3 \<lparr>Data = ''='', Offset = 7, File = []\<rparr> = ([], 7)
   \<and> alloc_chunk base64_decode 3 \<lparr>Data = ''aGVsbG8='', Offset = 8, File = []\<rparr>
       = ([OnData ''hello''], 8)
   \<and> task_chunk base64_decode 3 (Some \<lparr>Data = [], Offset = 7, File = []\<rparr>) = ([], 3)
   \<and> task_chunk base64_decode 3 (Some \<lparr>Data = ''='', Offset = 7, File = []\<rparr>) = ([], 7)
   \<and> task_chunk base64_decode 3 (Some \<lparr>Data = ''aGVsbG8='', Offset = 8, File = []\<rparr>)
       = ([OnData ''hello''], 8)
   \<and> filter is_OnData (alloc_streamLogs base64_decode True
        [\<lparr>read = Inr \<lparr>Data = [], Offset = 7, File = []\<rparr>,
          cancel_in_read = False, cancel_in_sleep = False\<rparr>,
         \<lparr>read = Inr \<lparr>Data = ''aGVsbG8='', Offset = 7 + 5, File = []\<rparr>,
          cancel_in_read = False, cancel_in_sleep = False\<rparr>])
       = [OnData ''hello'']
   \<and> filter is_OnData (task_streamLogs base64_decode True
        [\<lparr>read = Inr (Some \<lparr>Data = [], Offset = 7, File = []\<rparr>),
          cancel_in_read = False, cancel_in_sleep = False\<rparr>,
         \<lparr>read = Inr (Some \<lparr>Data = ''aGVsbG8='', Offset = 7 + 5, File = []\<rparr>),
          cancel_in_read = False, cancel_in_sleep = False\<rparr>])
       = [OnData ''hello'']"
  using stream_chunk_handling [where decode = base64_decode and offset = 3 and N = 7 and ?f1.0 = "[]" and ?f2.0 = "[]"
      and hasOnError = True
      and ?r0.0 = "\<lparr>Data = [], Offset = 7, File = []\<rparr>"
      and ?r1.0 = "\<lparr>Data = ''='', Offset = 7, File = []\<rparr>"
      and ?r2.0 = "\<lparr>Data = ''aGVsbG8='', Offset = 8, File = []\<rparr>"
      and ?c1.0 = "\<lparr>read = Inr \<lparr>Data = [], Offset = 7, File = []\<rparr>,
          cancel_in_read = False, cancel_in_sleep = False\<rparr>"
      and ?c2.0 = "\<lparr>read = Inr \<lparr>Data = ''aGVsbG8='', Offset = 7 + 5, File = []\<rparr>,
          cancel_in_read = False, cancel_in_sleep = False\<rparr>"
      and ?t1.0 = "\<lparr>read = Inr (Some \<lparr>Data = [], Offset = 7, File = []\<rparr>),
          cancel_in_read = False, cancel_in_sleep = False\<rparr>"
      and ?t2.0 = "\<lparr>read = Inr (Some \<lparr>Data = ''aGVsbG8='', Offset = 7 + 5, File = []\<rparr>),
          cancel_in_read = False, cancel_in_sleep = False\<rparr>"]
  by (simp add: base64_decode_hello base64_decode_padding_only)

subsection \<open>Read failures\<close>



subsection \<open>Cancellation\<close>

text \<open>
  After the cancel function has been called no new read is started. A read in flight at
  that moment completes; when it fails its error is dropped by the \<open>running\<close> test of the
  catch clause.
\<close>

lemma streamLoop_no_read_after_cancel:
  assumes quiet: "\<forall>offset response. \<forall>e \<in> set (fst (chunk offset response)). e \<noteq> Cancelled \<and> \<not> is_LogRead e"
  shows "filter is_LogRead (after_cancel (streamLoop chunk hasOnError True offset cycles)) = []"
proof (induction cycles arbitrary: offset)
  case Nil
  show ?case by (simp add: after_cancel_def)
next
  case (Cons c cycles)
  show ?case
  proof (cases "read c")
    case (Inl error)
    then show ?thesis by (simp add: after_cancel_def)
  next
    case (Inr response)
    let ?evs = "fst (chunk offset response)"
    have evs1: "\<forall>e \<in> set ?evs. e \<noteq> Cancelled" and evs2: "filter is_LogRead ?evs = []"
      using quiet by (auto simp: filter_empty_conv)
    have skip: "\<And>ys. dropWhile (\<lambda>e. e \<noteq> Cancelled) (?evs @ ys) = dropWhile (\<lambda>e. e \<noteq> Cancelled) ys"
      using evs1 by simp
    show ?thesis
    proof (cases "cancel_in_read c")
      case True
      with Inr evs2 show ?thesis
        by (simp add: after_cancel_def streamLoop_stopped)
    next
      case False
      show ?thesis
      proof (cases "cancel_in_sleep c")
        case True
        with Inr \<open>\<not> cancel_in_read c\<close> show ?thesis
          by (simp add: after_cancel_def streamLoop_stopped skip)
      next
        case False
        with Inr \<open>\<not> cancel_in_read c\<close> show ?thesis
          using Cons.IH [of "snd (chunk offset response)"]
          by (simp add: after_cancel_def skip)
      qed
    qed
  qed
qed

lemma alloc_chunk_quiet:
  "\<forall>e \<in> set (fst (alloc_chunk decode offset response)). e \<noteq> Cancelled \<and> \<not> is_LogRead e"
  by (simp add: alloc_chunk_def Let_def)

lemma task_chunk_quiet:
  "\<forall>e \<in> set (fst (task_chunk decode offset data)). e \<noteq> Cancelled \<and> \<not> is_LogRead e"
  by (simp add: task_chunk_def Let_def split: option.splits)

lemma streamLogs_no_read_after_cancel:
  "filter is_LogRead (after_cancel (alloc_streamLogs decode hasOnError cycles)) = []"
  "filter is_LogRead (after_cancel (task_streamLogs decode hasOnError tcycles)) = []"
  by (simp_all add: alloc_streamLogs_def task_streamLogs_def
        streamLoop_no_read_after_cancel alloc_chunk_quiet task_chunk_quiet)

lemma streamLoop_failure_after_cancel_discarded:
  "read c = Inl error \<Longrightarrow> cancel_in_read c \<Longrightarrow>
   streamLoop chunk hasOnError True offset (c # cs) = [LogRead offset, Cancelled]"
  by simp

text \<open>
  Claim C4 asks that the result of a read in flight when the cancel function is called be
  discarded. The \<open>try\<close> block does not test \<open>running\<close> after the awaited read, as the catch
  clause does: a chunk that arrives after the cancellation is still passed to \<open>onData\<close>,
  in both modules.
\<close>

theorem inflight_chunk_delivered_after_cancel:
  "alloc_streamLogs base64_decode True
     [\<lparr>read = Inr \<lparr>Data = ''aGVsbG8='', Offset = 5, File = ''web.stdout.0''\<rparr>,
       cancel_in_read = True, cancel_in_sleep = False\<rparr>]
   = [LogRead 0, Cancelled, OnData ''hello'', Sleep 1000]
   \<and> task_streamLogs base64_decode True
     [\<lparr>read = Inr (Some \<lparr>Data = ''aGVsbG8='', Offset = 5, File = ''web.stdout.0''\<rparr>),
       cancel_in_read = True, cancel_in_sleep = False\<rparr>]
   = [LogRead 0, Cancelled, OnData ''hello'', Sleep 1000]"
  by (simp add: base64_decode_hello alloc_streamLogs_def task_streamLogs_def
        alloc_chunk_def task_chunk_def)

end
